theory Spec2Isabelle
  imports Main
begin

section \<open>The voice bot front end: an embedding of src/App.js\<close>

text \<open>
  The component \<^verbatim>\<open>App\<close> keeps seven React state variables and two refs. Its event
  handlers are modelled as functions on a record holding that state, the interval timers
  that are live in the browser, whether the socket listeners have been registered, and the
  trace of calls made to the outside world
  (the speech-recognition object, the timer API, the socket, speech synthesis and the
  console). Whether an outside call throws is not decided by the component, so every
  handler that makes such a call takes the behaviour of the host as a parameter.
\<close>

subsection \<open>Data\<close>

text \<open>Calls that leave the component, in the order they are made.\<close>

datatype effect =
    RecognitionStart
  | RecognitionStop
  | SetInterval nat
  | ClearInterval nat
  | SocketEmit string string
  | Speak string
  | ConsoleError string

text \<open>
  How the host answers during one handler run: does \<^verbatim>\<open>recognition.start()\<close> throw, does
  \<^verbatim>\<open>recognition.stop()\<close> throw, does \<^verbatim>\<open>new SpeechSynthesisUtterance(text)\<close> throw, does
  \<^verbatim>\<open>window.speechSynthesis.speak(utterance)\<close> throw.
\<close>

record host =
  start_throws :: bool
  stop_throws :: bool
  utterance_throws :: bool
  speak_throws :: bool

text \<open>
  One entry of \<^verbatim>\<open>event.results\<close>: \<^verbatim>\<open>result[0].transcript\<close> (the text of the best
  alternative) and \<^verbatim>\<open>result.isFinal\<close>.
\<close>

record recognition_result =
  transcript :: string
  isFinal :: bool

text \<open>
  The state variables of lines 19-25, the two refs of lines 26-27 (\<open>recognitionRef\<close> records
  whether \<^verbatim>\<open>recognitionRef.current\<close> holds the recognition object, \<open>timeoutRef\<close> the interval
  handle stored in \<^verbatim>\<open>timeoutRef.current\<close>), the handles of the intervals that are live, the
  last handle handed out by \<^verbatim>\<open>setInterval\<close>, whether \<^verbatim>\<open>socket.on\<close> has registered the two
  listeners, and the trace. Interval handles are positive
  integers, so the truthiness test \<^verbatim>\<open>if (timeoutRef.current)\<close> is the test for a stored
  handle. Strings are lists of characters with codes below 256.
\<close>

record world =
  question :: string
  response :: string
  isListening :: bool
  isLoading :: bool
  error :: string
  showError :: bool
  timeLeft :: int
  recognitionRef :: bool
  timeoutRef :: "nat option"
  timers :: "nat list"
  lastTimer :: nat
  listeners :: bool
  trace :: "effect list"

text \<open>How a handler run ends: normally, or with a \<^verbatim>\<open>TypeError\<close> that nothing catches.\<close>

datatype completion = Normal | TypeError

text \<open>What the server sends on the socket: \<^verbatim>\<open>botResponse\<close> with an answer, or \<^verbatim>\<open>error\<close>.\<close>

datatype channel_event = BotResponse string | ErrorEvent string

subsection \<open>Helpers of the host language\<close>

text \<open>
  \<^verbatim>\<open>String.prototype.trim\<close> on code units below 256: tab, line feed, vertical tab, form
  feed, carriage return, space and no-break space are removed at both ends.
\<close>

definition isWhiteSpace :: "char \<Rightarrow> bool" where
  "isWhiteSpace c = (of_char c \<in> {9, 10, 11, 12, 13, 32, 160 :: nat})"

definition trim :: "string \<Rightarrow> string" where
  "trim s = rev (dropWhile isWhiteSpace (rev (dropWhile isWhiteSpace s)))"

definition call :: "effect \<Rightarrow> world \<Rightarrow> world" where
  "call x w = w\<lparr>trace := trace w @ [x]\<rparr>"

text \<open>\<^verbatim>\<open>setInterval\<close> hands out a fresh positive handle and makes the interval live.\<close>

definition setInterval :: "world \<Rightarrow> nat \<times> world" where
  "setInterval w =
     (let i = Suc (lastTimer w)
      in (i, call (SetInterval i) (w\<lparr>timers := timers w @ [i], lastTimer := i\<rparr>)))"

text \<open>\<^verbatim>\<open>clearInterval(i)\<close>: the interval stops being live; an unknown handle is ignored.\<close>

definition clearInterval :: "nat \<Rightarrow> world \<Rightarrow> world" where
  "clearInterval i w = call (ClearInterval i) (w\<lparr>timers := removeAll i (timers w)\<rparr>)"

subsection \<open>The component\<close>

text \<open>The values given to \<^verbatim>\<open>useState\<close> and \<^verbatim>\<open>useRef\<close> (lines 19-27).\<close>

definition initial :: world where
  "initial = \<lparr>question = [], response = [], isListening = False, isLoading = False,
     error = [], showError = False, timeLeft = 60, recognitionRef = False,
     timeoutRef = None, timers = [], lastTimer = 0, listeners = False, trace = []\<rparr>"

text \<open>
  The effect run once after the first render (lines 29-111): without speech recognition in
  the browser an error is shown and the effect returns on line 34, before anything is set
  up; otherwise the recognition object is created and stored in the ref, its handlers are
  attached, and the two socket listeners are registered (lines 88-99).
\<close>

definition mount :: "bool \<Rightarrow> world \<Rightarrow> world" where
  "mount supported w =
     (if \<not> supported
      then w\<lparr>error := ''Your browser does not support speech recognition. Please use Chrome or Edge.'',
             showError := True\<rparr>
      else w\<lparr>recognitionRef := True, listeners := True\<rparr>)"

text \<open>
  Lines 130-132: \<^verbatim>\<open>if (timeoutRef.current) clearInterval(timeoutRef.current)\<close>. The ref
  keeps the handle afterwards.
\<close>

definition clearCountdown :: "world \<Rightarrow> world" where
  "clearCountdown w = (case timeoutRef w of None \<Rightarrow> w | Some i \<Rightarrow> clearInterval i w)"

text \<open>
  \<^verbatim>\<open>stopListening\<close> (lines 125-137). The three statements share one \<^verbatim>\<open>try\<close>: when
  \<^verbatim>\<open>stop()\<close> throws, the handler logs to the console and the two statements after it do
  not run.
\<close>

definition stopListening :: "host \<Rightarrow> world \<Rightarrow> world" where
  "stopListening h w =
     (if recognitionRef w
      then (let w1 = call RecognitionStop w
            in if stop_throws h
               then call (ConsoleError ''Error stopping speech recognition:'') w1
               else (clearCountdown w1)\<lparr>isListening := False\<rparr>)
      else (clearCountdown w)\<lparr>isListening := False\<rparr>)"

text \<open>\<^verbatim>\<open>startListening\<close> (lines 113-123).\<close>

definition startListening :: "host \<Rightarrow> world \<Rightarrow> world" where
  "startListening h w =
     (if recognitionRef w
      then (let w1 = call RecognitionStart w
            in if start_throws h
               then (call (ConsoleError ''Error starting speech recognition:'') w1)
                      \<lparr>error := ''Failed to start voice recognition. Please try again.'',
                       showError := True\<rparr>
               else w1)
      else w)"

text \<open>
  The interval callback (lines 50-56): the updater given to \<^verbatim>\<open>setTimeLeft\<close> calls
  \<^verbatim>\<open>stopListening\<close> when the previous value is at most 1 and returns 0, otherwise it
  returns the previous value less one.
\<close>

definition countdown :: "host \<Rightarrow> world \<Rightarrow> world" where
  "countdown h w =
     (if timeLeft w \<le> 1
      then (stopListening h w)\<lparr>timeLeft := 0\<rparr>
      else w\<lparr>timeLeft := timeLeft w - 1\<rparr>)"

text \<open>The browser runs the callback of an interval only while the interval is live.\<close>

definition intervalFires :: "nat \<Rightarrow> host \<Rightarrow> world \<Rightarrow> world" where
  "intervalFires i h w = (if i \<in> set (timers w) then countdown h w else w)"

text \<open>\<^verbatim>\<open>onstart\<close> (lines 44-58).\<close>

definition onstart :: "world \<Rightarrow> world" where
  "onstart w =
     (let (i, w1) = setInterval (w\<lparr>isListening := True, error := [], timeLeft := 60\<rparr>)
      in w1\<lparr>timeoutRef := Some i\<rparr>)"

text \<open>
  \<^verbatim>\<open>onresult\<close> (lines 60-71). The transcript is the join of the first alternatives of all
  results; only \<^verbatim>\<open>event.results[0].isFinal\<close> is read. On an event without results
  \<^verbatim>\<open>event.results[0]\<close> is \<^verbatim>\<open>undefined\<close> and reading \<^verbatim>\<open>isFinal\<close> throws, after the question
  has been set.
\<close>

definition onresult :: "host \<Rightarrow> recognition_result list \<Rightarrow> world \<Rightarrow> completion \<times> world" where
  "onresult h results w =
     (let w1 = w\<lparr>question := concat (map transcript results)\<rparr>
      in case results of
           [] \<Rightarrow> (TypeError, w1)
         | r # _ \<Rightarrow> if isFinal r then (Normal, stopListening h w1) else (Normal, w1))"

text \<open>\<^verbatim>\<open>onerror\<close> (lines 73-78); the argument is \<^verbatim>\<open>event.error\<close>.\<close>

definition onerror :: "host \<Rightarrow> string \<Rightarrow> world \<Rightarrow> world" where
  "onerror h code w =
     stopListening h
       ((call (ConsoleError ''Speech recognition error:'') w)
          \<lparr>error := ''Error: '' @ code, showError := True\<rparr>)"

text \<open>\<^verbatim>\<open>onend\<close> (lines 80-85).\<close>

definition onend :: "world \<Rightarrow> world" where
  "onend w = clearCountdown (w\<lparr>isListening := False\<rparr>)"

text \<open>\<^verbatim>\<open>speakResponse\<close> (lines 139-148).\<close>

definition playbackFailed :: "world \<Rightarrow> world" where
  "playbackFailed w =
     (call (ConsoleError ''Error with speech synthesis:'') w)
       \<lparr>error := ''Failed to speak response. Please try again.'', showError := True\<rparr>"

definition speakResponse :: "host \<Rightarrow> string \<Rightarrow> world \<Rightarrow> world" where
  "speakResponse h text w =
     (if utterance_throws h then playbackFailed w
      else (let w1 = call (Speak text) w
            in if speak_throws h then playbackFailed w1 else w1))"

text \<open>The two socket listeners (lines 88-99).\<close>

definition botResponse :: "host \<Rightarrow> string \<Rightarrow> world \<Rightarrow> world" where
  "botResponse h data w = speakResponse h data (w\<lparr>response := data, isLoading := False\<rparr>)"

definition socketError :: "string \<Rightarrow> world \<Rightarrow> world" where
  "socketError err w =
     w\<lparr>response := ''Error: '' @ err, isLoading := False, error := err, showError := True\<rparr>"

text \<open>The socket runs a listener only if one has been registered.\<close>

definition socketDelivers :: "host \<Rightarrow> channel_event \<Rightarrow> world \<Rightarrow> world" where
  "socketDelivers h ev w =
     (if listeners w
      then (case ev of BotResponse data \<Rightarrow> botResponse h data w | ErrorEvent err \<Rightarrow> socketError err w)
      else w)"

text \<open>
  \<^verbatim>\<open>handleSubmit\<close> (lines 150-156); \<^verbatim>\<open>e.preventDefault()\<close> only keeps the browser from
  loading a new page.
\<close>

definition handleSubmit :: "world \<Rightarrow> world" where
  "handleSubmit w =
     (if trim (question w) \<noteq> []
      then call (SocketEmit ''askQuestion'' (question w)) (w\<lparr>isLoading := True\<rparr>)
      else w)"

text \<open>The text field's \<^verbatim>\<open>onChange\<close> (line 169) and the \<^verbatim>\<open>disabled\<close> attribute of Send (line 190).\<close>

definition onChange :: "string \<Rightarrow> world \<Rightarrow> world" where
  "onChange text w = w\<lparr>question := text\<rparr>"

definition sendDisabled :: "world \<Rightarrow> bool" where
  "sendDisabled w = (trim (question w) = [] \<or> isLoading w)"

text \<open>
  The user's submit. Send is the only submit button of the form (line 189; the microphone
  button is a plain button), so a press of Send, or of Enter in the text field, reaches
  \<^verbatim>\<open>handleSubmit\<close> through that button, and the browser submits nothing through a button
  that is disabled.
\<close>

definition userSubmit :: "world \<Rightarrow> world" where
  "userSubmit w = (if sendDisabled w then w else handleSubmit w)"

subsection \<open>Runs\<close>

text \<open>Result events delivered one after the other; an uncaught error ends only its own handler.\<close>

definition deliver :: "host \<Rightarrow> recognition_result list list \<Rightarrow> world \<Rightarrow> world" where
  "deliver h evs w = fold (\<lambda>ev v. snd (onresult h ev v)) evs w"

text \<open>The interval with handle \<open>i\<close> comes due once for each entry of the list.\<close>

definition ticks :: "nat \<Rightarrow> host list \<Rightarrow> world \<Rightarrow> world" where
  "ticks i hs w = fold (intervalFires i) hs w"

text \<open>What the session looks like apart from the trace.\<close>

definition session :: "world \<Rightarrow> world" where
  "session w = w\<lparr>trace := []\<rparr>"

text \<open>The interval kept in \<^verbatim>\<open>timeoutRef\<close> is live.\<close>

definition armed :: "world \<Rightarrow> bool" where
  "armed w = (case timeoutRef w of None \<Rightarrow> False | Some i \<Rightarrow> i \<in> set (timers w))"




subsection \<open>Concrete hosts, states and events\<close>

text \<open>
  A host on which no call throws, and hosts that differ from it in one call: \<open>refusing\<close>
  rejects \<^verbatim>\<open>start()\<close>, \<open>broken\<close> fails \<^verbatim>\<open>stop()\<close>, \<open>mute\<close> cannot construct an utterance.
\<close>

definition calm :: host where
  "calm = \<lparr>start_throws = False, stop_throws = False, utterance_throws = False,
     speak_throws = False\<rparr>"


definition broken :: host where
  "broken = calm\<lparr>stop_throws := True\<rparr>"


text \<open>
  States reached from the first render: \<open>ready\<close> after the user has pressed Start Listening,
  \<open>listening\<close> once the recognition has reported its start, \<open>dictating\<close> after a first interim
  result, \<open>lastSecond\<close> after 59 ticks of the countdown, and \<open>awaiting\<close> after the question
  \<^verbatim>\<open>hi\<close> has been typed and sent.
\<close>

definition ready :: world where
  "ready = startListening calm (mount True initial)"

definition listening :: world where
  "listening = onstart ready"

definition dictating :: world where
  "dictating = snd (onresult calm [\<lparr>transcript = ''hi'', isFinal = False\<rparr>] listening)"

definition lastSecond :: world where
  "lastSecond = ticks 1 (replicate 59 calm) listening"

definition awaiting :: world where
  "awaiting = handleSubmit (onChange ''hi'' (mount True initial))"

text \<open>
  The same question typed and sent in a browser without speech recognition, where only the
  microphone button is disabled (line 181).
\<close>

definition stranded :: world where
  "stranded = handleSubmit (onChange ''hi'' (mount False initial))"


definition finalFirst :: "recognition_result list" where
  "finalFirst = [\<lparr>transcript = ''What time is it?'', isFinal = True\<rparr>]"

definition scenarioB :: "recognition_result list list" where
  "scenarioB = [[\<lparr>transcript = ''What'', isFinal = False\<rparr>],
                [\<lparr>transcript = ''What time'', isFinal = False\<rparr>],
                [\<lparr>transcript = ''What time is it?'', isFinal = True\<rparr>]]"

definition afterFinal :: "recognition_result list list" where
  "afterFinal = [[\<lparr>transcript = ''What time'', isFinal = True\<rparr>],
                 [\<lparr>transcript = ''What time'', isFinal = True\<rparr>,
                  \<lparr>transcript = '' is it?'', isFinal = True\<rparr>]]"

section \<open>Facts about the handlers\<close>

lemmas handler_defs = call_def setInterval_def clearInterval_def clearCountdown_def
  stopListening_def startListening_def countdown_def intervalFires_def onstart_def onresult_def
  onerror_def onend_def playbackFailed_def speakResponse_def botResponse_def socketError_def
  handleSubmit_def onChange_def sendDisabled_def

subsection \<open>The concrete states, written out\<close>

lemma trim_hi: "trim ''hi'' = ''hi''"
  by (simp add: trim_def isWhiteSpace_def)

lemma ready_eq:
  "ready = \<lparr>question = [], response = [], isListening = False, isLoading = False,
     error = [], showError = False, timeLeft = 60, recognitionRef = True,
     timeoutRef = None, timers = [], lastTimer = 0, listeners = True,
     trace = [RecognitionStart]\<rparr>"
  by (simp add: ready_def handler_defs mount_def initial_def calm_def)

lemma listening_eq:
  "listening = \<lparr>question = [], response = [], isListening = True, isLoading = False,
     error = [], showError = False, timeLeft = 60, recognitionRef = True,
     timeoutRef = Some 1, timers = [1], lastTimer = 1, listeners = True,
     trace = [RecognitionStart, SetInterval 1]\<rparr>"
  by (simp add: listening_def ready_eq handler_defs)

lemma dictating_eq: "dictating = listening\<lparr>question := ''hi''\<rparr>"
  by (simp add: dictating_def onresult_def)

lemma awaiting_eq:
  "awaiting = \<lparr>question = ''hi'', response = [], isListening = False, isLoading = True,
     error = [], showError = False, timeLeft = 60, recognitionRef = True,
     timeoutRef = None, timers = [], lastTimer = 0, listeners = True,
     trace = [SocketEmit ''askQuestion'' ''hi'']\<rparr>"
  by (simp add: awaiting_def handler_defs mount_def initial_def trim_hi)

subsection \<open>What \<open>stopListening\<close> touches\<close>

lemma stopListening_count:
  "count_list (trace (stopListening h w)) RecognitionStop =
     count_list (trace w) RecognitionStop + (if recognitionRef w then 1 else 0)"
  by (simp add: stopListening_def clearCountdown_def clearInterval_def call_def Let_def
      split: option.splits)

lemma stopListening_idle:
  "\<not> stop_throws h \<Longrightarrow> \<not> isListening (stopListening h w) \<and> \<not> armed (stopListening h w)"
  by (simp add: stopListening_def clearCountdown_def clearInterval_def call_def armed_def Let_def
      split: option.splits)

lemma stopListening_keeps:
  "error (stopListening h w) = error w" "showError (stopListening h w) = showError w"
  "question (stopListening h w) = question w"
  "recognitionRef (stopListening h w) = recognitionRef w"
  "isLoading (stopListening h w) = isLoading w" "response (stopListening h w) = response w"
  by (simp_all add: stopListening_def clearCountdown_def clearInterval_def call_def Let_def
      split: option.splits)

lemma stopListening_fields:
  "timeLeft (stopListening h w) = timeLeft w" "timeoutRef (stopListening h w) = timeoutRef w"
  "lastTimer (stopListening h w) = lastTimer w" "listeners (stopListening h w) = listeners w"
  by (simp_all add: stopListening_def clearCountdown_def clearInterval_def call_def Let_def
      split: option.splits)

lemma stopListening_inactive_again:
  "\<not> isListening w \<Longrightarrow> timers w = [] \<Longrightarrow>
   \<not> isListening (stopListening h w) \<and> timers (stopListening h w) = []"
  by (simp add: stopListening_def clearCountdown_def clearInterval_def call_def Let_def
      split: option.splits)

lemma session_eqI:
  "question v = question w \<Longrightarrow> response v = response w \<Longrightarrow> isListening v = isListening w \<Longrightarrow>
   isLoading v = isLoading w \<Longrightarrow> error v = error w \<Longrightarrow> showError v = showError w \<Longrightarrow>
   timeLeft v = timeLeft w \<Longrightarrow> recognitionRef v = recognitionRef w \<Longrightarrow>
   timeoutRef v = timeoutRef w \<Longrightarrow> timers v = timers w \<Longrightarrow> lastTimer v = lastTimer w \<Longrightarrow>
   listeners v = listeners w \<Longrightarrow> session v = session w"
  by (cases v, cases w) (simp add: session_def)

lemma stopListening_noop:
  assumes "\<not> isListening w" and "timers w = []"
  shows "session (stopListening h w) = session w"
proof (rule session_eqI)
  show "isListening (stopListening h w) = isListening w" "timers (stopListening h w) = timers w"
    using stopListening_inactive_again [OF assms] assms by simp_all
qed (simp_all add: stopListening_keeps stopListening_fields)



subsection \<open>What \<open>onstart\<close> and \<open>onresult\<close> touch\<close>

lemma onstart_fields:
  "timeLeft (onstart w) = 60" "timeoutRef (onstart w) = Some (Suc (lastTimer w))"
  "timers (onstart w) = timers w @ [Suc (lastTimer w)]" "isListening (onstart w)"
  "error (onstart w) = []" "showError (onstart w) = showError w"
  "recognitionRef (onstart w) = recognitionRef w"
  "trace (onstart w) = trace w @ [SetInterval (Suc (lastTimer w))]"
  by (simp_all add: onstart_def setInterval_def call_def Let_def)

lemma onresult_question: "question (snd (onresult h ev w)) = concat (map transcript ev)"
  by (cases ev) (simp_all add: onresult_def Let_def stopListening_keeps)

lemma onresult_keeps:
  "error (snd (onresult h ev w)) = error w" "showError (snd (onresult h ev w)) = showError w"
  by (cases ev; simp add: onresult_def Let_def stopListening_keeps)+

text \<open>An event without results sets the question to the empty text and then throws.\<close>

lemma onresult_no_results: "onresult h [] w = (TypeError, w\<lparr>question := []\<rparr>)"
  by (simp add: onresult_def)


lemma deliver_snoc: "deliver h (evs @ [ev]) w = snd (onresult h ev (deliver h evs w))"
  by (simp add: deliver_def)

subsection \<open>The countdown before it runs out\<close>

lemma ticks_Nil: "ticks i [] w = w"
  by (simp add: ticks_def)

lemma ticks_Cons: "ticks i (h # hs) w = ticks i hs (intervalFires i h w)"
  by (simp add: ticks_def)

lemma ticks_append: "ticks i (hs @ hs') w = ticks i hs' (ticks i hs w)"
  by (simp add: ticks_def)

text \<open>While more than one second is left, a tick only lowers \<open>timeLeft\<close>.\<close>

lemma ticks_count_down:
  "i \<in> set (timers w) \<Longrightarrow> timeLeft w = int (length hs) + 1 \<Longrightarrow> ticks i hs w = w\<lparr>timeLeft := 1\<rparr>"
proof (induction hs arbitrary: w)
  case Nil
  then show ?case by (simp add: ticks_Nil)
next
  case (Cons h hs)
  let ?v = "w\<lparr>timeLeft := timeLeft w - 1\<rparr>"
  from Cons.prems have step: "intervalFires i h w = ?v"
    by (simp add: intervalFires_def countdown_def)
  from Cons.prems have "i \<in> set (timers ?v)" "timeLeft ?v = int (length hs) + 1"
    by simp_all
  then have "ticks i hs ?v = ?v\<lparr>timeLeft := 1\<rparr>"
    by (rule Cons.IH)
  with step show ?case by (simp add: ticks_Cons)
qed

lemma lastSecond_eq: "lastSecond = listening\<lparr>timeLeft := 1\<rparr>"
  unfolding lastSecond_def by (rule ticks_count_down) (simp_all add: listening_eq)

section \<open>The claims\<close>

subsection \<open>C1: submitting while a request is outstanding\<close>

text \<open>
  The handler by itself: \<^verbatim>\<open>handleSubmit\<close> tests only the question text. The guard against a
  second request is the \<^verbatim>\<open>disabled\<close> attribute of Send, which holds whenever a request is
  outstanding.
\<close>

lemma handleSubmit_unguarded:
  "isLoading w \<Longrightarrow>
   handleSubmit w =
     w\<lparr>trace := trace w @
        (if trim (question w) = [] then [] else [SocketEmit ''askQuestion'' (question w)])\<rparr> \<and>
   sendDisabled w"
  by (simp add: handleSubmit_def call_def sendDisabled_def)

text \<open>With no request outstanding and a question that is not blank, the user's submit is accepted.\<close>

lemma userSubmit_accepts:
  "\<not> isLoading w \<Longrightarrow> trim (question w) \<noteq> [] \<Longrightarrow>
   userSubmit w =
     w\<lparr>isLoading := True, trace := trace w @ [SocketEmit ''askQuestion'' (question w)]\<rparr>"
  by (simp add: userSubmit_def sendDisabled_def handleSubmit_def call_def)

text \<open>
  Claim C1. In every state in which a request is outstanding (the loading flag is set), the
  user's submit sends nothing on the channel and changes nothing: the trace of outside
  calls, the question text, the response text, the loading flag and the error state are
  all as before.
\<close>

theorem userSubmit_outstanding:
  "isLoading w \<Longrightarrow>
   userSubmit w = w \<and> trace (userSubmit w) = trace w \<and>
   question (userSubmit w) = question w \<and> response (userSubmit w) = response w \<and>
   isLoading (userSubmit w) \<and> error (userSubmit w) = error w \<and>
   showError (userSubmit w) = showError w"
  by (simp add: userSubmit_def sendDisabled_def)

theorem userSubmit_outstanding_witness:
  "isLoading awaiting \<and> userSubmit awaiting = awaiting \<and>
   trace (userSubmit awaiting) = [SocketEmit ''askQuestion'' ''hi''] \<and>
   question (userSubmit awaiting) = ''hi'' \<and> response (userSubmit awaiting) = [] \<and>
   isLoading (userSubmit awaiting) \<and> error (userSubmit awaiting) = [] \<and>
   \<not> showError (userSubmit awaiting)"
  using userSubmit_outstanding [of awaiting] by (simp add: awaiting_eq)

subsection \<open>C2: a final result ends the capture\<close>


lemma onresult_first_interim:
  "\<not> isFinal r \<Longrightarrow>
   onresult h (r # rs) w = (Normal, w\<lparr>question := concat (map transcript (r # rs))\<rparr>)"
  by (simp add: onresult_def)



subsection \<open>C3: submitting while listening\<close>

text \<open>
  Claim C3, as the code has it. A submit of non-blank question text while capture is active
  sets the loading flag and emits \<^verbatim>\<open>askQuestion\<close> with the question text, and does nothing
  else: the listening flag stays true, the live intervals and the countdown stay as they
  are, and no \<^verbatim>\<open>stop()\<close> is sent to the recognition object.
\<close>

theorem handleSubmit_keeps_capture:
  "trim (question w) \<noteq> [] \<Longrightarrow> isListening w \<Longrightarrow>
   handleSubmit w =
     w\<lparr>isLoading := True, trace := trace w @ [SocketEmit ''askQuestion'' (question w)]\<rparr> \<and>
   isListening (handleSubmit w) \<and> timers (handleSubmit w) = timers w \<and>
   armed (handleSubmit w) = armed w \<and>
   count_list (trace (handleSubmit w)) RecognitionStop = count_list (trace w) RecognitionStop"
  by (simp add: handleSubmit_def call_def armed_def split: option.splits)

theorem handleSubmit_keeps_capture_witness:
  "trim (question dictating) \<noteq> [] \<and> isListening dictating \<and>
   handleSubmit dictating =
     dictating\<lparr>isLoading := True,
       trace := [RecognitionStart, SetInterval 1, SocketEmit ''askQuestion'' ''hi'']\<rparr> \<and>
   isListening (handleSubmit dictating) \<and> timers (handleSubmit dictating) = [1] \<and>
   armed (handleSubmit dictating) \<and>
   count_list (trace (handleSubmit dictating)) RecognitionStop = 0"
  using handleSubmit_keeps_capture [of dictating]
  by (simp add: dictating_eq listening_eq trim_hi armed_def)

text \<open>
  The claim as stated (capture is stopped by the submit) fails: after the interim result
  \<^verbatim>\<open>hi\<close> a submit leaves the session listening with its countdown armed, and no \<^verbatim>\<open>stop()\<close>
  has been called.
\<close>

theorem handleSubmit_keeps_capture_counterexample:
  "trim (question dictating) \<noteq> [] \<and> isListening dictating \<and>
   isListening (handleSubmit dictating) \<and> armed (handleSubmit dictating) \<and>
   RecognitionStop \<notin> set (trace (handleSubmit dictating))"
  by (simp add: dictating_eq listening_eq handleSubmit_def call_def armed_def trim_hi)

subsection \<open>C4: the countdown runs out\<close>

text \<open>
  Scenario C for any state in which the recognition starts: if nothing else happens, the
  sixtieth tick of the countdown ends the session.
\<close>

lemma sixty_ticks:
  assumes "recognitionRef w" and "length hs = 59" and "\<not> stop_throws h" and "isFinal r"
  defines "w' \<equiv> ticks (Suc (lastTimer w)) (hs @ [h]) (onstart w)"
  shows "\<not> isListening w' \<and> \<not> armed w' \<and> timeLeft w' = 0 \<and>
         count_list (trace w') RecognitionStop = Suc (count_list (trace w) RecognitionStop) \<and>
         error w' = [] \<and> showError w' = showError w \<and>
         count_list (trace (snd (onresult g (r # rs) w'))) RecognitionStop =
           Suc (Suc (count_list (trace w) RecognitionStop))"
proof -
  let ?i = "Suc (lastTimer w)"
  let ?v = "(onstart w)\<lparr>timeLeft := 1\<rparr>"
  have "ticks ?i hs (onstart w) = ?v"
    using assms(2) by (intro ticks_count_down) (simp_all add: onstart_fields)
  then have w': "w' = (stopListening h ?v)\<lparr>timeLeft := 0\<rparr>"
    by (simp add: w'_def ticks_append ticks_Cons ticks_Nil intervalFires_def countdown_def
        onstart_fields)
  have idle: "\<not> isListening (stopListening h ?v) \<and> \<not> armed (stopListening h ?v)"
    using assms(3) by (rule stopListening_idle)
  have cnt: "count_list (trace (stopListening h ?v)) RecognitionStop =
               Suc (count_list (trace w) RecognitionStop)"
    using assms(1) by (simp add: stopListening_count onstart_fields)
  have rr: "recognitionRef w'"
    using assms(1) by (simp add: w' stopListening_keeps onstart_fields)
  have "count_list (trace (snd (onresult g (r # rs) w'))) RecognitionStop =
          Suc (count_list (trace w') RecognitionStop)"
    using assms(4) rr by (simp add: onresult_def stopListening_count)
  moreover have "count_list (trace w') RecognitionStop = Suc (count_list (trace w) RecognitionStop)"
    using cnt by (simp add: w')
  moreover have "\<not> isListening w' \<and> \<not> armed w' \<and> timeLeft w' = 0"
    using idle by (simp add: w' armed_def split: option.splits)
  moreover have "error w' = [] \<and> showError w' = showError w"
    by (simp add: w' stopListening_keeps onstart_fields)
  ultimately show ?thesis by simp
qed

text \<open>
  Claim C4, as the code has it. In a listening session the tick that finds at most one
  second left runs \<^verbatim>\<open>stopListening\<close>: provided that \<^verbatim>\<open>stop()\<close> does not throw, the listening
  flag is false afterwards, the countdown interval is cleared, the time left is 0, the tick
  has called \<^verbatim>\<open>stop()\<close> exactly once, and the error message and the error flag are as they
  were. Nothing keeps a later result event from calling \<^verbatim>\<open>stop()\<close> again: a result event
  with a final first result that is handled after that tick brings the number of calls to
  two.
\<close>

theorem countdown_expiry:
  assumes "isListening w" and "recognitionRef w" and "timeoutRef w = Some i"
    and "i \<in> set (timers w)" and "timeLeft w \<le> 1" and "\<not> stop_throws h" and "isFinal r"
  defines "w' \<equiv> intervalFires i h w"
  shows "\<not> isListening w' \<and> \<not> armed w' \<and> i \<notin> set (timers w') \<and> timeLeft w' = 0 \<and>
         count_list (trace w') RecognitionStop = Suc (count_list (trace w) RecognitionStop) \<and>
         error w' = error w \<and> showError w' = showError w \<and>
         count_list (trace (snd (onresult g (r # rs) w'))) RecognitionStop =
           Suc (Suc (count_list (trace w) RecognitionStop))"
proof -
  have w': "w' = (stopListening h w)\<lparr>timeLeft := 0\<rparr>"
    using assms(4,5) by (simp add: w'_def intervalFires_def countdown_def)
  have idle: "\<not> isListening (stopListening h w) \<and> \<not> armed (stopListening h w)"
    using assms(6) by (rule stopListening_idle)
  have ref: "timeoutRef w' = Some i"
    using assms(3) by (simp add: w' stopListening_fields)
  have quiet: "\<not> isListening w' \<and> \<not> armed w' \<and> timeLeft w' = 0"
    using idle by (simp add: w' armed_def split: option.splits)
  then have gone: "i \<notin> set (timers w')"
    using ref by (simp add: armed_def)
  have cnt: "count_list (trace w') RecognitionStop = Suc (count_list (trace w) RecognitionStop)"
    using assms(2) by (simp add: w' stopListening_count)
  have "recognitionRef w'"
    using assms(2) by (simp add: w' stopListening_keeps)
  with assms(7) have "count_list (trace (snd (onresult g (r # rs) w'))) RecognitionStop =
      Suc (count_list (trace w') RecognitionStop)"
    by (simp add: onresult_def stopListening_count)
  with cnt quiet gone show ?thesis
    by (simp add: w' stopListening_keeps)
qed

theorem countdown_expiry_witness:
  "isListening lastSecond \<and> recognitionRef lastSecond \<and> timeoutRef lastSecond = Some 1 \<and>
   1 \<in> set (timers lastSecond) \<and> timeLeft lastSecond \<le> 1 \<and> \<not> stop_throws calm \<and>
   isFinal (hd finalFirst) \<and>
   \<not> isListening (intervalFires 1 calm lastSecond) \<and>
   \<not> armed (intervalFires 1 calm lastSecond) \<and>
   1 \<notin> set (timers (intervalFires 1 calm lastSecond)) \<and>
   timeLeft (intervalFires 1 calm lastSecond) = 0 \<and>
   count_list (trace (intervalFires 1 calm lastSecond)) RecognitionStop = 1 \<and>
   error (intervalFires 1 calm lastSecond) = [] \<and>
   \<not> showError (intervalFires 1 calm lastSecond)"
proof -
  have a: "isListening lastSecond" and b: "recognitionRef lastSecond"
    and c: "timeoutRef lastSecond = Some 1" and d: "1 \<in> set (timers lastSecond)"
    and e: "timeLeft lastSecond \<le> 1" and f: "\<not> stop_throws calm"
    and g: "isFinal \<lparr>transcript = ''What time is it?'', isFinal = True\<rparr>"
    by (simp_all add: lastSecond_eq listening_eq calm_def)
  have k: "count_list (trace lastSecond) RecognitionStop = 0" "error lastSecond = []"
    "\<not> showError lastSecond" "timers lastSecond = [1]"
    by (simp_all add: lastSecond_eq listening_eq)
  show ?thesis
    using a b c d e f countdown_expiry [OF a b c d e f g, where rs = "[]" and g = calm]
    by (simp add: k finalFirst_def)
qed

text \<open>
  The claim as stated (\<^verbatim>\<open>stop()\<close> exactly once even when a final fragment arrives in the same
  tick) fails: in the last second of a session the tick stops the capture, and the final
  result delivered right after it calls \<^verbatim>\<open>stop()\<close> a second time.
\<close>

theorem countdown_expiry_counterexample:
  "isListening lastSecond \<and> timeLeft lastSecond = 1 \<and>
   timeLeft (intervalFires 1 calm lastSecond) = 0 \<and>
   \<not> isListening (intervalFires 1 calm lastSecond) \<and>
   count_list (trace (snd (onresult calm finalFirst (intervalFires 1 calm lastSecond))))
     RecognitionStop = 2"
  by (simp add: lastSecond_eq listening_eq finalFirst_def calm_def intervalFires_def countdown_def
      onresult_def stopListening_def clearCountdown_def clearInterval_def call_def)

subsection \<open>C5: the two channel events\<close>

text \<open>
  What the two listeners do when they run. A response event stores the answer text, clears
  the loading flag and runs \<^verbatim>\<open>speakResponse\<close> once, which calls \<^verbatim>\<open>speak()\<close> once with that
  text, or reports a playback failure if the utterance cannot be constructed. An error
  event stores the error for display (also as the response text, prefixed), clears the
  loading flag and calls nothing. Neither emits anything on the socket.
\<close>

lemma channel_handlers:
  "response (botResponse h data w) = data \<and> \<not> isLoading (botResponse h data w) \<and>
   trace (botResponse h data w) =
     trace w @ (if utterance_throws h then [ConsoleError ''Error with speech synthesis:'']
                else if speak_throws h
                  then [Speak data, ConsoleError ''Error with speech synthesis:'']
                  else [Speak data]) \<and>
   response (socketError err w) = ''Error: '' @ err \<and> error (socketError err w) = err \<and>
   showError (socketError err w) \<and> \<not> isLoading (socketError err w) \<and>
   trace (socketError err w) = trace w"
  by (simp add: botResponse_def speakResponse_def playbackFailed_def call_def socketError_def
      Let_def)

lemma stranded_eq:
  "stranded = \<lparr>question = ''hi'', response = [], isListening = False, isLoading = True,
     error = ''Your browser does not support speech recognition. Please use Chrome or Edge.'',
     showError = True, timeLeft = 60, recognitionRef = False,
     timeoutRef = None, timers = [], lastTimer = 0, listeners = False,
     trace = [SocketEmit ''askQuestion'' ''hi'']\<rparr>"
  by (simp add: stranded_def handler_defs mount_def initial_def trim_hi)

text \<open>
  Claim C5 says that every accepted request is resolved by a response event or an error
  event: the answer or the error is stored, the loading flag is cleared, and an answer is
  spoken once. In a browser without speech recognition the effect returns before the two
  socket listeners are registered, while the text field and Send still work. The question
  \<^verbatim>\<open>hi\<close> is emitted and the loading flag set; the answer \<^verbatim>\<open>Paris.\<close> and likewise an error
  event then change nothing: the response text stays empty, the loading flag stays true,
  and \<^verbatim>\<open>speak()\<close> is not called.
\<close>

theorem response_unheard:
  "trace stranded = [SocketEmit ''askQuestion'' ''hi''] \<and> isLoading stranded \<and>
   socketDelivers calm (BotResponse ''Paris.'') stranded = stranded \<and>
   socketDelivers calm (ErrorEvent ''timeout'') stranded = stranded \<and>
   response (socketDelivers calm (BotResponse ''Paris.'') stranded) = [] \<and>
   isLoading (socketDelivers calm (BotResponse ''Paris.'') stranded) \<and>
   Speak ''Paris.'' \<notin> set (trace (socketDelivers calm (BotResponse ''Paris.'') stranded))"
  by (simp add: stranded_eq socketDelivers_def)

text \<open>With the listeners registered the same answer is stored, spoken once, and ends the wait.\<close>

lemma response_heard:
  "response (socketDelivers calm (BotResponse ''Paris.'') awaiting) = ''Paris.'' \<and>
   \<not> isLoading (socketDelivers calm (BotResponse ''Paris.'') awaiting) \<and>
   trace (socketDelivers calm (BotResponse ''Paris.'') awaiting) =
     [SocketEmit ''askQuestion'' ''hi'', Speak ''Paris.'']"
  by (simp add: awaiting_eq socketDelivers_def calm_def botResponse_def speakResponse_def
      call_def)

subsection \<open>C6: the state after a failure\<close>




subsection \<open>C7: the question text is the joined transcript\<close>

text \<open>
  Claim C7. After a recognition result event the question text is the concatenation, in
  order, of the transcripts of all results in that event; and when a sequence of such events
  is delivered, the question text after each of them is the joined transcript of that
  event.
\<close>

theorem question_is_join:
  "question (snd (onresult h ev w)) = concat (map transcript ev) \<and>
   (\<forall>n < length evs.
      question (deliver h (take (Suc n) evs) w) = concat (map transcript (evs ! n)))"
  by (simp add: onresult_question take_Suc_conv_app_nth deliver_snoc)

theorem question_is_join_witness:
  "(2::nat) < length scenarioB \<and>
   question (deliver calm (take (Suc 2) scenarioB) listening) = ''What time is it?'' \<and>
   question (deliver calm scenarioB listening) = ''What time is it?''"
proof -
  have n: "(2::nat) < length scenarioB" by (simp add: scenarioB_def)
  have t: "take 3 scenarioB = scenarioB" by (simp add: scenarioB_def)
  have e: "concat (map transcript (scenarioB ! 2)) = ''What time is it?''"
    by (simp add: scenarioB_def)
  from question_is_join [of calm "[]" listening scenarioB] n
  have "question (deliver calm (take (Suc 2) scenarioB) listening) =
          concat (map transcript (scenarioB ! 2))"
    by blast
  with n show ?thesis by (simp add: t e)
qed

subsection \<open>C8: result events after a final one\<close>

text \<open>
  Claim C8, as the code has it. \<^verbatim>\<open>onresult\<close> has no guard for events that follow a final
  result. Once an event with a final first result has been handled (and \<^verbatim>\<open>stop()\<close> called),
  a further result event still replaces the question text by its own joined transcript; it
  leaves the error message and the error flag as they were.
\<close>

theorem no_guard_after_final:
  assumes "isFinal r" and "recognitionRef w"
  shows "count_list (trace (snd (onresult h (r # rs) w))) RecognitionStop =
           Suc (count_list (trace w) RecognitionStop) \<and>
         question (snd (onresult h' ev (snd (onresult h (r # rs) w)))) =
           concat (map transcript ev) \<and>
         error (snd (onresult h' ev (snd (onresult h (r # rs) w)))) = error w \<and>
         showError (snd (onresult h' ev (snd (onresult h (r # rs) w)))) = showError w"
proof -
  have "count_list (trace (snd (onresult h (r # rs) w))) RecognitionStop =
          Suc (count_list (trace w) RecognitionStop)"
    using assms by (simp add: onresult_def stopListening_count)
  then show ?thesis by (simp add: onresult_question onresult_keeps)
qed

theorem no_guard_after_final_witness:
  "isFinal (hd (afterFinal ! 0)) \<and> recognitionRef listening \<and>
   count_list (trace (snd (onresult calm (afterFinal ! 0) listening))) RecognitionStop = 1 \<and>
   question (snd (onresult calm (afterFinal ! 1) (snd (onresult calm (afterFinal ! 0) listening)))) =
     ''What time is it?'' \<and>
   error (snd (onresult calm (afterFinal ! 1) (snd (onresult calm (afterFinal ! 0) listening)))) =
     [] \<and>
   \<not> showError
       (snd (onresult calm (afterFinal ! 1) (snd (onresult calm (afterFinal ! 0) listening))))"
proof -
  have a: "isFinal \<lparr>transcript = ''What time'', isFinal = True\<rparr>"
    and b: "recognitionRef listening"
    by (simp_all add: listening_eq)
  have e: "error listening = []" "\<not> showError listening"
    "count_list (trace listening) RecognitionStop = 0"
    by (simp_all add: listening_eq)
  show ?thesis
    using b no_guard_after_final [OF a b, of calm "[]" calm "afterFinal ! 1"]
    by (simp add: afterFinal_def e)
qed

text \<open>
  The claim as stated (the question text does not change after a final fragment) fails: a
  first event with the final result \<^verbatim>\<open>What time\<close> is followed by an event that carries a
  second final result, and the question text changes to \<^verbatim>\<open>What time is it?\<close>.
\<close>

theorem no_guard_after_final_counterexample:
  "isFinal (hd (afterFinal ! 0)) \<and>
   question (deliver calm (take 1 afterFinal) listening) = ''What time'' \<and>
   question (deliver calm afterFinal listening) = ''What time is it?'' \<and>
   question (deliver calm afterFinal listening) \<noteq>
     question (deliver calm (take 1 afterFinal) listening)"
  by (simp add: afterFinal_def deliver_def onresult_question)

subsection \<open>C9: stopping an inactive session\<close>

text \<open>
  Claim C9. In a state with the listening flag false and no live interval,
  \<^verbatim>\<open>stopListening\<close> changes nothing in the session, whatever the host does: neither the
  error message nor the error flag is set, and a second call in a row leaves the session as
  the first one did. What the call still does is outside the session: \<^verbatim>\<open>stop()\<close> on the
  recognition object, \<^verbatim>\<open>clearInterval\<close> on the handle kept in \<^verbatim>\<open>timeoutRef\<close>, and a console
  message if \<^verbatim>\<open>stop()\<close> throws.
\<close>

theorem stopListening_inactive:
  assumes "\<not> isListening w" and "timers w = []"
  shows "session (stopListening h w) = session w \<and>
         session (stopListening h' (stopListening h w)) = session (stopListening h w) \<and>
         error (stopListening h w) = error w \<and> showError (stopListening h w) = showError w \<and>
         set (trace (stopListening h w)) \<subseteq>
           set (trace w) \<union>
           {RecognitionStop, ConsoleError ''Error stopping speech recognition:''} \<union>
           ClearInterval ` set_option (timeoutRef w)"
proof -
  have 1: "session (stopListening h w) = session w"
    using assms by (rule stopListening_noop)
  have "\<not> isListening (stopListening h w)" "timers (stopListening h w) = []"
    using stopListening_inactive_again [OF assms] by simp_all
  then have 2: "session (stopListening h' (stopListening h w)) = session (stopListening h w)"
    by (rule stopListening_noop)
  have 3: "set (trace (stopListening h w)) \<subseteq>
           set (trace w) \<union>
           {RecognitionStop, ConsoleError ''Error stopping speech recognition:''} \<union>
           ClearInterval ` set_option (timeoutRef w)"
    by (cases "timeoutRef w")
      (auto simp add: stopListening_def clearCountdown_def clearInterval_def call_def Let_def)
  from 1 2 3 show ?thesis by (simp add: stopListening_keeps)
qed

theorem stopListening_inactive_witness:
  "\<not> isListening ready \<and> timers ready = [] \<and>
   session (stopListening calm ready) = session ready \<and>
   session (stopListening broken (stopListening calm ready)) = session (stopListening calm ready) \<and>
   error (stopListening calm ready) = [] \<and> \<not> showError (stopListening calm ready)"
proof -
  have a: "\<not> isListening ready" and b: "timers ready = []"
    by (simp_all add: ready_eq)
  have e: "error ready = []" "\<not> showError ready"
    by (simp_all add: ready_eq)
  show ?thesis
    using a b stopListening_inactive [OF a b, of calm broken] by (simp add: e)
qed

subsection \<open>C10: typed text is replaced\<close>

text \<open>
  Claim C10. A recognition result event replaces the whole question text by the transcript
  joined from its results. Text typed into the question field before the event has no
  influence on the outcome: the state after the event is the same whatever had been typed.
\<close>

theorem typed_text_discarded:
  "question (snd (onresult h ev (onChange typed w))) = concat (map transcript ev) \<and>
   onresult h ev (onChange typed w) = onresult h ev w"
  by (simp add: onresult_question) (simp add: onresult_def onChange_def)

end
